theory Spec2Isabelle
  imports Main "HOL-Library.Sublist"
begin

section \<open>Notebook utilities of the deployment module\<close>

text \<open>
  The source file \<^verbatim>\<open>04_deploy_model/notebook_utilities.py\<close> holds three functions:
  \<^verbatim>\<open>get_latest_training_job_name\<close>, \<^verbatim>\<open>get_training_job_s3_model_artifacts\<close> and
  \<^verbatim>\<open>check_dependencies\<close> (with its local helper \<^verbatim>\<open>versiontuple\<close>).

  Every function talks to the outside world: the SageMaker client, the installed
  \<^verbatim>\<open>sagemaker\<close> module, the interpreter path, a shell and the notebook kernel. The
  embedding takes that world as a parameter (a record of what each call answers) and
  returns, beside the function's result, the calls and prints the function made, in the
  order it made them. An exception is a value \<open>Inl e\<close> of a sum type.

  Limits of the embedding: a character is a byte, so only ASCII digits and ASCII white
  space are known to the integer parser (Python also reads the decimal digits of other
  scripts), and the interpreter's cap on the number of digits of a literal is left out.
\<close>

subsection \<open>Errors, events and the outside world\<close>

datatype error =
    Exception string
  | ValueError string
  | AttributeError string
  | ClientError string
  | OSError string

text \<open>
  \<open>Exception msg\<close> is what \<^verbatim>\<open>raise Exception(msg)\<close> raises; \<open>ValueError lit\<close> is what
  \<^verbatim>\<open>int(lit)\<close> raises on a literal it cannot read; \<open>AttributeError\<close> is the failed
  attribute access on an application object that has no kernel. \<open>ClientError\<close> and
  \<open>OSError\<close> are never built by the functions below: only the outside world hands
  them in.
\<close>

record list_training_jobs_request =
  NameContains :: string
  SortBy :: string
  SortOrder :: string
  StatusEquals :: string

record training_job_summary =
  TrainingJobName :: string
  CreationTime :: int
  TrainingJobStatus :: string

record list_training_jobs_response =
  TrainingJobSummaries :: "training_job_summary list"

record model_artifacts =
  S3ModelArtifacts :: string

record describe_training_job_response =
  ModelArtifacts :: model_artifacts

record sagemaker_client =
  list_training_jobs :: "list_training_jobs_request \<Rightarrow> error + list_training_jobs_response"
  describe_training_job :: "string \<Rightarrow> error + describe_training_job_response"

text \<open>
  What \<^verbatim>\<open>os.popen(cmd)\<close> hands back, and what the command does beside: the text
  \<^verbatim>\<open>stream.read()\<close> yields, which is the standard output of the command (the pipe carries
  nothing else); the text the command writes to its standard error, which goes to the
  standard error of the calling process and not into the pipe; and the exit status of
  the command, which only \<^verbatim>\<open>stream.close()\<close> would report.
\<close>

record process_stream =
  read :: string
  stderr :: string
  exit_status :: int

record environment =
  boto3_client :: "string \<Rightarrow> error + sagemaker_client"
  sagemaker_version :: string
  sys_executable :: string
  os_popen :: "string \<Rightarrow> error + process_stream"
  kernel_present :: bool

datatype event =
    ListTrainingJobs list_training_jobs_request
  | DescribeTrainingJob string
  | Print string
  | Popen string
  | DoShutdown bool

fun is_Popen :: "event \<Rightarrow> bool" where
  "is_Popen (Popen c) = True"
| "is_Popen e = False"

fun is_DoShutdown :: "event \<Rightarrow> bool" where
  "is_DoShutdown (DoShutdown r) = True"
| "is_DoShutdown e = False"

subsection \<open>JobLookup and ArtifactResolver\<close>

text \<open>
  \<^verbatim>\<open>
  def get_latest_training_job_name(base_job_name):
      client = boto3.client('sagemaker')
      response = client.list_training_jobs(NameContains=base_job_name, SortBy='CreationTime',
                                           SortOrder='Descending', StatusEquals='Completed')
      if len(response['TrainingJobSummaries']) > 0 :
          return response['TrainingJobSummaries'][0]['TrainingJobName']
      else:
          raise Exception('Training job not found.')
  \<close>
  The response is a record with the fields the service's response shape declares;
  index 0 is read only where the list is non-empty, as in the source.
\<close>

definition get_latest_training_job_name ::
  "environment \<Rightarrow> string \<Rightarrow> event list \<times> (error + string)" where
  "get_latest_training_job_name env base_job_name =
     (case boto3_client env ''sagemaker'' of
        Inl e \<Rightarrow> ([], Inl e)
      | Inr client \<Rightarrow>
          (let request = \<lparr>NameContains = base_job_name, SortBy = ''CreationTime'',
                          SortOrder = ''Descending'', StatusEquals = ''Completed''\<rparr>
           in case list_training_jobs client request of
                Inl e \<Rightarrow> ([ListTrainingJobs request], Inl e)
              | Inr response \<Rightarrow>
                  if length (TrainingJobSummaries response) > 0
                  then ([ListTrainingJobs request],
                        Inr (TrainingJobName (TrainingJobSummaries response ! 0)))
                  else ([ListTrainingJobs request],
                        Inl (Exception ''Training job not found.''))))"

text \<open>
  \<^verbatim>\<open>
  def get_training_job_s3_model_artifacts(job_name):
      client = boto3.client('sagemaker')
      response = client.describe_training_job(TrainingJobName=job_name)
      s3_model_artifacts = response['ModelArtifacts']['S3ModelArtifacts']
      return s3_model_artifacts
  \<close>
\<close>

definition get_training_job_s3_model_artifacts ::
  "environment \<Rightarrow> string \<Rightarrow> event list \<times> (error + string)" where
  "get_training_job_s3_model_artifacts env job_name =
     (case boto3_client env ''sagemaker'' of
        Inl e \<Rightarrow> ([], Inl e)
      | Inr client \<Rightarrow>
          (case describe_training_job client job_name of
             Inl e \<Rightarrow> ([DescribeTrainingJob job_name], Inl e)
           | Inr response \<Rightarrow>
               (let s3_model_artifacts = S3ModelArtifacts (ModelArtifacts response)
                in ([DescribeTrainingJob job_name], Inr s3_model_artifacts))))"

subsection \<open>The host language's string and tuple operations\<close>

text \<open>
  \<^verbatim>\<open>v.split(".")\<close>: the pieces between the separators; a string with no separator is
  one piece, and the empty string is one empty piece.
\<close>

fun split :: "string \<Rightarrow> char \<Rightarrow> string list" where
  "split [] sep = [[]]"
| "split (c # cs) sep =
     (if c = sep then [] # split cs sep
      else (case split cs sep of
              [] \<Rightarrow> [[c]]
            | w # ws \<Rightarrow> (c # w) # ws))"

text \<open>
  \<^verbatim>\<open>int(s)\<close> on a string, base 10: white space around the literal is dropped, one sign
  may lead, and the digits may be grouped by single underscores. Anything else raises
  ValueError, which carries the string.
\<close>

definition is_space :: "char \<Rightarrow> bool" where
  "is_space c = (c \<in> set [CHR '' '', CHR 0x09, CHR 0x0A, CHR 0x0B, CHR 0x0C, CHR 0x0D])"

definition is_digit :: "char \<Rightarrow> bool" where
  "is_digit c = (c \<in> set ''0123456789'')"

definition digit_value :: "char \<Rightarrow> int" where
  "digit_value c = of_char c - 48"

definition strip :: "string \<Rightarrow> string" where
  "strip s = rev (dropWhile is_space (rev (dropWhile is_space s)))"

fun digits :: "int \<Rightarrow> string \<Rightarrow> int option" where
  "digits acc [] = Some acc"
| "digits acc [c] = (if is_digit c then Some (10 * acc + digit_value c) else None)"
| "digits acc (c # d # cs) =
     (if is_digit c then digits (10 * acc + digit_value c) (d # cs)
      else if c = CHR ''_'' \<and> is_digit d then digits (10 * acc + digit_value d) cs
      else None)"

definition literal :: "string \<Rightarrow> int option" where
  "literal s =
     (case s of
        [] \<Rightarrow> None
      | c # cs \<Rightarrow> if is_digit c then digits (digit_value c) cs else None)"

definition parse_int :: "string \<Rightarrow> int option" where
  "parse_int s =
     (case strip s of
        [] \<Rightarrow> None
      | c # cs \<Rightarrow>
          if c = CHR ''+'' then literal cs
          else if c = CHR ''-'' then map_option uminus (literal cs)
          else literal (c # cs))"

definition int_of_string :: "string \<Rightarrow> error + int" where
  "int_of_string s = (case parse_int s of None \<Rightarrow> Inl (ValueError s) | Some n \<Rightarrow> Inr n)"

text \<open>
  \<^verbatim>\<open>tuple(map(int, segments))\<close>: the segments are converted from left to right, and the
  first one that fails raises.
\<close>

fun map_int :: "string list \<Rightarrow> error + int list" where
  "map_int [] = Inr []"
| "map_int (s # ss) =
     (case int_of_string s of
        Inl e \<Rightarrow> Inl e
      | Inr n \<Rightarrow> (case map_int ss of Inl e \<Rightarrow> Inl e | Inr ns \<Rightarrow> Inr (n # ns)))"

text \<open>
  The order of tuples of integers: the first position where the two differ decides;
  where one tuple is a proper start of the other, the shorter one is the smaller.
\<close>

fun tuple_less :: "int list \<Rightarrow> int list \<Rightarrow> bool" where
  "tuple_less [] [] = False"
| "tuple_less [] (y # ys) = True"
| "tuple_less (x # xs) [] = False"
| "tuple_less (x # xs) (y # ys) = (if x = y then tuple_less xs ys else x < y)"

fun tuple_greater :: "int list \<Rightarrow> int list \<Rightarrow> bool" where
  "tuple_greater [] [] = False"
| "tuple_greater [] (y # ys) = False"
| "tuple_greater (x # xs) [] = True"
| "tuple_greater (x # xs) (y # ys) = (if x = y then tuple_greater xs ys else x > y)"

subsection \<open>DependencyChecker\<close>

text \<open>
  \<^verbatim>\<open>
  def versiontuple(v):
      return tuple(map(int, (v.split("."))))
  \<close>
\<close>

definition versiontuple :: "string \<Rightarrow> error + int list" where
  "versiontuple v = map_int (split v (CHR ''.''))"

definition required_version :: string where
  "required_version = ''2.90.0''"

text \<open>
  The state of one run of \<^verbatim>\<open>check_dependencies\<close>: its local flag and what it has done so
  far, oldest first.
\<close>

record execution =
  kernel_restart_required :: bool
  events :: "event list"

definition emit :: "event \<Rightarrow> execution \<Rightarrow> execution" where
  "emit e s = s\<lparr>events := events s @ [e]\<rparr>"

text \<open>
  \<^verbatim>\<open>
  kernel_restart_required = False
  required_version = '2.90.0'
  if (versiontuple(sagemaker.__version__) < versiontuple(required_version)):
      print('This workshop was tested with sagemaker version {} but you are using {}. Installing required version...'.format(required_version, sagemaker.__version__) )
      stream = os.popen('{} -m pip install -U sagemaker=={}'.format(sys.executable, required_version))
      output = stream.read()
      print(output)
      kernel_restart_required = True
  if kernel_restart_required:
      print("Restarting kernel after installing new dependencies...")
      IPython.Application.instance().kernel.do_shutdown(True)
      print('WARNING: Kernel restarting...please wait 30 seconds before moving to the next cell!')
  \<close>
  The left operand of the comparison is evaluated first. A call to the shell that cannot
  be made, and an application object without a kernel, raise; the run stops there with
  what it had done.
\<close>

definition check_dependencies :: "environment \<Rightarrow> execution \<times> (error + unit)" where
  "check_dependencies env =
     (let s0 = \<lparr>kernel_restart_required = False, events = []\<rparr> in
      case versiontuple (sagemaker_version env) of
        Inl e \<Rightarrow> (s0, Inl e)
      | Inr installed \<Rightarrow>
     (case versiontuple required_version of
        Inl e \<Rightarrow> (s0, Inl e)
      | Inr required \<Rightarrow>
     (case
        (if tuple_less installed required then
           (let s1 = emit (Print (''This workshop was tested with sagemaker version ''
                                    @ required_version @ '' but you are using ''
                                    @ sagemaker_version env
                                    @ ''. Installing required version...'')) s0;
                command = sys_executable env @ '' -m pip install -U sagemaker==''
                            @ required_version;
                s2 = emit (Popen command) s1
            in case os_popen env command of
                 Inl e \<Rightarrow> (s2, Inl e)
               | Inr stream \<Rightarrow>
                   (let output = read stream;
                        s3 = emit (Print output) s2
                    in (s3\<lparr>kernel_restart_required := True\<rparr>, Inr ())))
         else (s0, Inr ()))
      of
        (s, Inl e) \<Rightarrow> (s, Inl e)
      | (s, Inr u) \<Rightarrow>
          if kernel_restart_required s then
            (let s4 = emit (Print ''Restarting kernel after installing new dependencies...'') s
             in if kernel_present env then
                  (let s5 = emit (DoShutdown True) s4;
                       s6 = emit (Print ''WARNING: Kernel restarting...please wait 30 seconds before moving to the next cell!'') s5
                   in (s6, Inr ()))
                else (s4, Inl (AttributeError ''kernel'')))
          else (s, Inr ()))))"

subsection \<open>What the claims speak of\<close>

text \<open>
  \<open>precedes a b xs\<close>: somewhere in \<open>xs\<close> an \<open>a\<close> stands before a \<open>b\<close>.
\<close>

fun precedes :: "'a \<Rightarrow> 'a \<Rightarrow> 'a list \<Rightarrow> bool" where
  "precedes a b [] = False"
| "precedes a b (x # xs) = ((x = a \<and> b \<in> set xs) \<or> precedes a b xs)"

text \<open>
  \<open>printed evs\<close>: the texts printed in the run \<open>evs\<close>, in order.
\<close>

fun printed :: "event list \<Rightarrow> string list" where
  "printed [] = []"
| "printed (Print t # evs) = t # printed evs"
| "printed (e # evs) = printed evs"

text \<open>
  \<open>handed_in env e\<close>: the outside world answers one of the calls the three functions
  make with the error \<open>e\<close>. Such an error is passed on by the functions, not built by
  them.
\<close>

definition handed_in :: "environment \<Rightarrow> error \<Rightarrow> bool" where
  "handed_in env e =
     (boto3_client env ''sagemaker'' = Inl e
      \<or> (\<exists>client request. boto3_client env ''sagemaker'' = Inr client
            \<and> list_training_jobs client request = Inl e)
      \<or> (\<exists>client job_name. boto3_client env ''sagemaker'' = Inr client
            \<and> describe_training_job client job_name = Inl e)
      \<or> (\<exists>command. os_popen env command = Inl e))"

subsection \<open>A model of the remote service, and an example world\<close>

text \<open>
  Modelled from the spec: the remote listing API, a service outside the repository
  (section 6: the request carries a name-contains filter, a sort field, a sort order and
  a status filter; the response is the ordered sequence of the matching job summaries).
  \<open>jobs\<close> is what the service holds. It is used to build example worlds and to check the
  request the code sends against the claim about the newest completed job; the functions
  above do not depend on it.
\<close>

fun contains :: "string \<Rightarrow> string \<Rightarrow> bool" where
  "contains [] part = (part = [])"
| "contains (c # cs) part = (prefix part (c # cs) \<or> contains cs part)"

definition listing_service ::
  "training_job_summary list \<Rightarrow> list_training_jobs_request
     \<Rightarrow> error + list_training_jobs_response" where
  "listing_service jobs request =
     (let matching = filter (\<lambda>j. contains (TrainingJobName j) (NameContains request)
                                 \<and> TrainingJobStatus j = StatusEquals request) jobs;
          ascending = (if SortBy request = ''CreationTime''
                       then sort_key CreationTime matching else matching)
      in Inr \<lparr>TrainingJobSummaries =
                (if SortOrder request = ''Descending'' then rev ascending else ascending)\<rparr>)"

text \<open>
  Modelled from the spec: the remote describe API, a service outside the repository
  (section 6: the request is a job identifier, the response a record with a nested
  artifact-location object; section 4.2: an unknown identifier is an error of the
  service). \<open>store\<close> maps the names of the jobs the service holds to their artifact URIs.
\<close>

definition describe_service ::
  "(string \<times> string) list \<Rightarrow> string \<Rightarrow> error + describe_training_job_response" where
  "describe_service store job_name =
     (case map_of store job_name of
        None \<Rightarrow> Inl (ClientError ''Requested resource not found.'')
      | Some uri \<Rightarrow> Inr \<lparr>ModelArtifacts = \<lparr>S3ModelArtifacts = uri\<rparr>\<rparr>)"

text \<open>
  The example of the spec's section 8: two completed jobs created on 1 January and on
  1 February 2024 (seconds since the epoch), and a third, newer one that failed.
\<close>

definition example_jobs :: "training_job_summary list" where
  "example_jobs =
     [\<lparr>TrainingJobName = ''churn-predict-2024-01-01'', CreationTime = 1704067200,
       TrainingJobStatus = ''Completed''\<rparr>,
      \<lparr>TrainingJobName = ''churn-predict-2024-02-01'', CreationTime = 1706745600,
       TrainingJobStatus = ''Completed''\<rparr>,
      \<lparr>TrainingJobName = ''churn-predict-2024-03-01'', CreationTime = 1709251200,
       TrainingJobStatus = ''Failed''\<rparr>]"

definition example_artifacts :: "(string \<times> string) list" where
  "example_artifacts =
     [(''churn-predict-2024-02-01'',
       ''s3://bucket/churn-predict-2024-02-01/output/model.tar.gz'')]"

definition example_client :: sagemaker_client where
  "example_client =
     \<lparr>list_training_jobs = listing_service example_jobs,
      describe_training_job = describe_service example_artifacts\<rparr>"

text \<open>
  A notebook kernel with the given \<^verbatim>\<open>sagemaker\<close> version installed, in which every shell
  command yields the given stream.
\<close>

definition example_env :: "string \<Rightarrow> process_stream \<Rightarrow> environment" where
  "example_env installed stream =
     \<lparr>boto3_client = (\<lambda>service. Inr example_client),
      sagemaker_version = installed,
      sys_executable = ''/opt/conda/bin/python'',
      os_popen = (\<lambda>command. Inr stream),
      kernel_present = True\<rparr>"

definition pip_succeeded :: process_stream where
  "pip_succeeded =
     \<lparr>read = ''Successfully installed sagemaker-2.90.0'', stderr = [], exit_status = 0\<rparr>"

definition pip_failed :: process_stream where
  "pip_failed =
     \<lparr>read = ''Collecting sagemaker==2.90.0'',
      stderr = ''ERROR: No matching distribution found'',
      exit_status = 1\<rparr>"

text \<open>
  The same world outside a notebook kernel, and the same world where the call to the
  shell itself raises.
\<close>

definition no_kernel :: "environment \<Rightarrow> environment" where
  "no_kernel env = env\<lparr>kernel_present := False\<rparr>"

definition no_shell :: "environment \<Rightarrow> environment" where
  "no_shell env = env\<lparr>os_popen := (\<lambda>command. Inl (OSError ''Cannot allocate memory''))\<rparr>"

section \<open>Properties\<close>

subsection \<open>Facts about the host language's operations\<close>

lemmas int_eval =
  versiontuple_def int_of_string_def parse_int_def strip_def literal_def
  is_space_def is_digit_def digit_value_def

lemma versiontuple_required: "versiontuple required_version = Inr [2, 90, 0]"
  by (simp add: required_version_def int_eval)

lemma split_nonempty: "split v sep \<noteq> []"
  by (induction v) (auto split: list.splits)

lemma split_append_sep: "split (v @ sep # w) sep = split v sep @ split w sep"
  by (induction v) (auto simp: split_nonempty split: list.splits)

lemma map_int_append:
  "map_int (xs @ ys) =
     (case map_int xs of
        Inl e \<Rightarrow> Inl e
      | Inr a \<Rightarrow> (case map_int ys of Inl e \<Rightarrow> Inl e | Inr b \<Rightarrow> Inr (a @ b)))"
  by (induction xs) (auto split: sum.splits)

lemma map_int_fail:
  "seg \<in> set ss \<Longrightarrow> parse_int seg = None \<Longrightarrow>
     \<exists>bad \<in> set ss. parse_int bad = None \<and> map_int ss = Inl (ValueError bad)"
  by (induction ss) (auto simp: int_of_string_def split: sum.splits option.splits)

lemma map_int_errors:
  "map_int ss = Inl e \<Longrightarrow> \<exists>lit \<in> set ss. parse_int lit = None \<and> e = ValueError lit"
  by (induction ss) (auto simp: int_of_string_def split: sum.splits option.splits)

text \<open>
  The order on tuples is the lexicographic order of the library, is strict and total, and
  \<open>tuple_greater\<close> is its converse.
\<close>

lemma tuple_less_lexord: "tuple_less xs ys \<longleftrightarrow> (xs, ys) \<in> lexord {(a, b). a < b}"
  by (induction xs ys rule: tuple_less.induct) auto

lemma tuple_less_append: "ys \<noteq> [] \<Longrightarrow> tuple_less xs (xs @ ys)"
  by (induction xs) (auto simp: neq_Nil_conv)

lemma tuple_less_irrefl: "\<not> tuple_less xs xs"
  by (induction xs) auto

lemma tuple_less_asym: "tuple_less xs ys \<Longrightarrow> \<not> tuple_less ys xs"
  by (induction xs ys rule: tuple_less.induct) (auto split: if_splits)

lemma tuple_less_total: "tuple_less xs ys \<or> xs = ys \<or> tuple_less ys xs"
  by (induction xs ys rule: tuple_less.induct) auto

lemma tuple_greater_less: "tuple_greater xs ys = tuple_less ys xs"
  by (induction xs ys rule: tuple_less.induct) auto

lemma contains_sublist: "contains name part \<longleftrightarrow> sublist part name"
  by (induction name) (auto simp: sublist_Cons_right)

lemma precedes_iff:
  "precedes a b xs \<longleftrightarrow> (\<exists>pre post. xs = pre @ a # post \<and> b \<in> set post)"
proof (induction xs)
  case Nil
  then show ?case by simp
next
  case (Cons x xs)
  show ?case
  proof
    assume "precedes a b (x # xs)"
    then consider "x = a" "b \<in> set xs" | "precedes a b xs" by auto
    then show "\<exists>pre post. x # xs = pre @ a # post \<and> b \<in> set post"
    proof cases
      case 1
      then have "x # xs = [] @ a # xs \<and> b \<in> set xs" by simp
      then show ?thesis by blast
    next
      case 2
      then obtain pre post where "xs = pre @ a # post" "b \<in> set post"
        using Cons.IH by blast
      then have "x # xs = (x # pre) @ a # post \<and> b \<in> set post" by simp
      then show ?thesis by blast
    qed
  next
    assume "\<exists>pre post. x # xs = pre @ a # post \<and> b \<in> set post"
    then obtain pre post where p: "x # xs = pre @ a # post" "b \<in> set post" by blast
    show "precedes a b (x # xs)"
    proof (cases pre)
      case Nil
      with p show ?thesis by simp
    next
      case (Cons y ys)
      with p have "xs = ys @ a # post" by simp
      with p(2) Cons.IH show ?thesis by auto
    qed
  qed
qed

subsection \<open>JobLookup\<close>

lemma get_latest_found:
  assumes "boto3_client env ''sagemaker'' = Inr client"
    and "list_training_jobs client
           \<lparr>NameContains = base_job_name, SortBy = ''CreationTime'',
            SortOrder = ''Descending'', StatusEquals = ''Completed''\<rparr> = Inr response"
    and "TrainingJobSummaries response \<noteq> []"
  shows "get_latest_training_job_name env base_job_name =
           ([ListTrainingJobs \<lparr>NameContains = base_job_name, SortBy = ''CreationTime'',
               SortOrder = ''Descending'', StatusEquals = ''Completed''\<rparr>],
            Inr (TrainingJobName (hd (TrainingJobSummaries response))))"
  using assms by (simp add: get_latest_training_job_name_def hd_conv_nth)

lemma descending_first_max:
  assumes "sorted_wrt (\<lambda>a b. CreationTime b \<le> CreationTime a) xs" and "k \<in> set xs"
  shows "CreationTime k \<le> CreationTime (hd xs)"
  using assms by (cases xs) auto

lemma example_boto3_client:
  "boto3_client (example_env installed stream) ''sagemaker'' = Inr example_client"
  by (simp add: example_env_def)

lemma example_listing:
  "list_training_jobs example_client
     \<lparr>NameContains = ''churn-predict'', SortBy = ''CreationTime'',
      SortOrder = ''Descending'', StatusEquals = ''Completed''\<rparr> =
   Inr \<lparr>TrainingJobSummaries =
         [\<lparr>TrainingJobName = ''churn-predict-2024-02-01'', CreationTime = 1706745600,
           TrainingJobStatus = ''Completed''\<rparr>,
          \<lparr>TrainingJobName = ''churn-predict-2024-01-01'', CreationTime = 1704067200,
           TrainingJobStatus = ''Completed''\<rparr>]\<rparr>"
  by (simp add: example_client_def listing_service_def example_jobs_def)

text \<open>
  Claim C1. Where the listing call answers with at least one job summary, in descending
  order of creation time, \<^verbatim>\<open>get_latest_training_job_name\<close> returns the name of the first
  summary of the answer, and no summary of the answer has a later creation time than
  that one. The summaries of the answer are the completed matching jobs the API reports.
\<close>

theorem latest_training_job_is_newest_reported:
  assumes "boto3_client env ''sagemaker'' = Inr client"
    and "list_training_jobs client
           \<lparr>NameContains = base_job_name, SortBy = ''CreationTime'',
            SortOrder = ''Descending'', StatusEquals = ''Completed''\<rparr> = Inr response"
    and "TrainingJobSummaries response \<noteq> []"
    and "sorted_wrt (\<lambda>a b. CreationTime b \<le> CreationTime a) (TrainingJobSummaries response)"
  shows "snd (get_latest_training_job_name env base_job_name) =
           Inr (TrainingJobName (hd (TrainingJobSummaries response)))
         \<and> hd (TrainingJobSummaries response) \<in> set (TrainingJobSummaries response)
         \<and> (\<forall>k \<in> set (TrainingJobSummaries response).
               CreationTime k \<le> CreationTime (hd (TrainingJobSummaries response)))"
  using get_latest_found [OF assms(1,2,3)] descending_first_max [OF assms(4)] assms(3)
  by simp

theorem latest_training_job_is_newest_reported_witness:
  "snd (get_latest_training_job_name (example_env ''2.90.0'' pip_succeeded) ''churn-predict'')
     = Inr ''churn-predict-2024-02-01''"
  using latest_training_job_is_newest_reported [OF example_boto3_client example_listing]
  by simp

text \<open>
  The request the code sends, answered by the modelled listing service: the answer is
  the set of the jobs of the service that carry the requested status and whose name
  contains the filter, newest first. So over that service the function returns the
  newest completed job whose name contains the filter, whenever there is one.
\<close>

lemma listing_service_contract:
  assumes "SortBy request = ''CreationTime''" and "SortOrder request = ''Descending''"
  shows "\<exists>response. listing_service jobs request = Inr response
     \<and> set (TrainingJobSummaries response) =
         {j \<in> set jobs. contains (TrainingJobName j) (NameContains request)
                       \<and> TrainingJobStatus j = StatusEquals request}
     \<and> sorted_wrt (\<lambda>a b. CreationTime b \<le> CreationTime a) (TrainingJobSummaries response)"
proof -
  let ?m = "filter (\<lambda>j. contains (TrainingJobName j) (NameContains request)
                         \<and> TrainingJobStatus j = StatusEquals request) jobs"
  have "sorted (map CreationTime (sort_key CreationTime ?m))"
    by (rule sorted_sort_key)
  then have "sorted_wrt (\<lambda>a b. CreationTime a \<le> CreationTime b) (sort_key CreationTime ?m)"
    by (simp add: sorted_map)
  then have "sorted_wrt (\<lambda>a b. CreationTime b \<le> CreationTime a)
               (rev (sort_key CreationTime ?m))"
    by (simp add: sorted_wrt_rev)
  then show ?thesis using assms by (auto simp: listing_service_def)
qed

lemma latest_of_listing_service:
  assumes "boto3_client env ''sagemaker'' = Inr client"
    and "list_training_jobs client = listing_service jobs"
    and "j \<in> set jobs" and "contains (TrainingJobName j) base_job_name"
    and "TrainingJobStatus j = ''Completed''"
  shows "\<exists>latest \<in> set jobs.
           snd (get_latest_training_job_name env base_job_name) = Inr (TrainingJobName latest)
         \<and> contains (TrainingJobName latest) base_job_name
         \<and> TrainingJobStatus latest = ''Completed''
         \<and> (\<forall>k \<in> set jobs. contains (TrainingJobName k) base_job_name
               \<longrightarrow> TrainingJobStatus k = ''Completed''
               \<longrightarrow> CreationTime k \<le> CreationTime latest)"
proof -
  let ?req = "\<lparr>NameContains = base_job_name, SortBy = ''CreationTime'',
               SortOrder = ''Descending'', StatusEquals = ''Completed''\<rparr>"
  obtain response where r: "listing_service jobs ?req = Inr response"
    "set (TrainingJobSummaries response) =
       {j \<in> set jobs. contains (TrainingJobName j) (NameContains ?req)
                     \<and> TrainingJobStatus j = StatusEquals ?req}"
    "sorted_wrt (\<lambda>a b. CreationTime b \<le> CreationTime a) (TrainingJobSummaries response)"
    using listing_service_contract [of ?req jobs] by auto
  from r(2) assms(3,4,5) have mem: "j \<in> set (TrainingJobSummaries response)" by simp
  then have ne: "TrainingJobSummaries response \<noteq> []" by auto
  have l: "list_training_jobs client ?req = Inr response" using assms(2) r(1) by simp
  have res: "snd (get_latest_training_job_name env base_job_name) =
               Inr (TrainingJobName (hd (TrainingJobSummaries response)))"
    using get_latest_found [OF assms(1) l ne] by simp
  have hdin: "hd (TrainingJobSummaries response) \<in> set (TrainingJobSummaries response)"
    using ne by simp
  have mx: "\<forall>k \<in> set (TrainingJobSummaries response).
              CreationTime k \<le> CreationTime (hd (TrainingJobSummaries response))"
    using descending_first_max [OF r(3)] by blast
  show ?thesis
    using res hdin mx unfolding r(2)
    by (intro bexI [of _ "hd (TrainingJobSummaries response)"]) auto
qed

text \<open>
  Where the errors of the three functions come from: the outside world, the integer
  parser, the missing kernel, or the one \<^verbatim>\<open>raise\<close> of the source.
\<close>

lemma get_latest_training_job_name_errors:
  assumes "get_latest_training_job_name env base_job_name = (tr, Inl e)"
  shows "handed_in env e \<or> e = Exception ''Training job not found.''"
  using assms
  by (auto simp: get_latest_training_job_name_def handed_in_def Let_def
           split: sum.splits if_splits)

lemma get_training_job_s3_model_artifacts_errors:
  assumes "get_training_job_s3_model_artifacts env job_name = (tr, Inl e)"
  shows "handed_in env e"
  using assms
  by (auto simp: get_training_job_s3_model_artifacts_def handed_in_def split: sum.splits)

lemma check_dependencies_errors:
  assumes "check_dependencies env = (s, Inl e)"
  shows "handed_in env e \<or> (\<exists>lit. parse_int lit = None \<and> e = ValueError lit)
         \<or> (e = AttributeError ''kernel'' \<and> \<not> kernel_present env)"
proof (cases "versiontuple (sagemaker_version env)")
  case (Inl a)
  then have "e = a" using assms by (simp add: check_dependencies_def)
  then show ?thesis using Inl map_int_errors unfolding versiontuple_def by blast
next
  case (Inr installed)
  then show ?thesis using assms versiontuple_required
    by (auto simp: check_dependencies_def emit_def handed_in_def Let_def
             split: sum.splits if_splits)
qed

text \<open>
  Claim C2. Where the listing call answers with no job summary,
  \<^verbatim>\<open>get_latest_training_job_name\<close> fails with the exception "Training job not found."
  after that one call (it does not ask again). Every other error of the three functions
  is handed in by the outside world, or is the ValueError of the integer parser, or the
  AttributeError of the missing kernel: the not-found exception is the only error the
  code builds itself.
\<close>

theorem no_completed_job_raises_not_found:
  assumes "boto3_client env ''sagemaker'' = Inr client"
    and "list_training_jobs client
           \<lparr>NameContains = base_job_name, SortBy = ''CreationTime'',
            SortOrder = ''Descending'', StatusEquals = ''Completed''\<rparr> = Inr response"
    and "TrainingJobSummaries response = []"
  shows "get_latest_training_job_name env base_job_name =
           ([ListTrainingJobs \<lparr>NameContains = base_job_name, SortBy = ''CreationTime'',
               SortOrder = ''Descending'', StatusEquals = ''Completed''\<rparr>],
            Inl (Exception ''Training job not found.''))
       \<and> (\<forall>w name tr e. get_latest_training_job_name w name = (tr, Inl e) \<longrightarrow>
             handed_in w e \<or> e = Exception ''Training job not found.'')
       \<and> (\<forall>w name tr e. get_training_job_s3_model_artifacts w name = (tr, Inl e) \<longrightarrow>
             handed_in w e)
       \<and> (\<forall>w s e. check_dependencies w = (s, Inl e) \<longrightarrow>
             handed_in w e \<or> (\<exists>lit. parse_int lit = None \<and> e = ValueError lit)
             \<or> (e = AttributeError ''kernel'' \<and> \<not> kernel_present w))"
proof -
  have "get_latest_training_job_name env base_job_name =
           ([ListTrainingJobs \<lparr>NameContains = base_job_name, SortBy = ''CreationTime'',
               SortOrder = ''Descending'', StatusEquals = ''Completed''\<rparr>],
            Inl (Exception ''Training job not found.''))"
    using assms by (simp add: get_latest_training_job_name_def)
  then show ?thesis
    using get_latest_training_job_name_errors get_training_job_s3_model_artifacts_errors
      check_dependencies_errors
    by blast
qed

lemma example_listing_empty:
  "list_training_jobs example_client
     \<lparr>NameContains = ''fraud-detect'', SortBy = ''CreationTime'',
      SortOrder = ''Descending'', StatusEquals = ''Completed''\<rparr> =
   Inr \<lparr>TrainingJobSummaries = []\<rparr>"
  by (simp add: example_client_def listing_service_def example_jobs_def)

theorem no_completed_job_raises_not_found_witness:
  "get_latest_training_job_name (example_env ''2.90.0'' pip_succeeded) ''fraud-detect'' =
     ([ListTrainingJobs \<lparr>NameContains = ''fraud-detect'', SortBy = ''CreationTime'',
         SortOrder = ''Descending'', StatusEquals = ''Completed''\<rparr>],
      Inl (Exception ''Training job not found.''))"
  using no_completed_job_raises_not_found [OF example_boto3_client example_listing_empty]
  by simp

subsection \<open>Version comparison\<close>

text \<open>
  Claim C3. \<^verbatim>\<open>versiontuple\<close> splits on the dot and reads each segment as an integer, and
  under the lexicographic order of tuples "2.90.0" is less than "2.91.0", "2.90.0" is
  equal to itself and not less, and "2.90.1" is greater than "2.90.0".
\<close>

theorem versiontuple_comparison_examples:
  "versiontuple ''2.90.0'' = Inr [2, 90, 0]
   \<and> versiontuple ''2.91.0'' = Inr [2, 91, 0]
   \<and> versiontuple ''2.90.1'' = Inr [2, 90, 1]
   \<and> tuple_less [2, 90, 0] [2, 91, 0]
   \<and> versiontuple ''2.90.0'' = versiontuple ''2.90.0''
   \<and> \<not> tuple_less [2, 90, 0] [2, 90, 0]
   \<and> tuple_greater [2, 90, 1] [2, 90, 0]"
  by (simp add: int_eval)

text \<open>
  Claim C8. Where a version string parses, the same string with ".0" appended parses to
  the same tuple with one more component 0, and that longer tuple is strictly greater;
  so "2.9" is less than "2.9.0".
\<close>

theorem trailing_zero_segment_is_greater:
  assumes "versiontuple v = Inr t"
  shows "versiontuple (v @ ''.0'') = Inr (t @ [0])
       \<and> tuple_less t (t @ [0]) \<and> \<not> tuple_less (t @ [0]) t"
proof -
  have "split ''0'' (CHR ''.'') = [''0'']" by simp
  then have "split (v @ ''.0'') (CHR ''.'') = split v (CHR ''.'') @ [''0'']"
    using split_append_sep [of v "CHR ''.''" "''0''"] by simp
  moreover have "map_int [''0''] = Inr [0]" by (simp add: int_eval)
  ultimately have "versiontuple (v @ ''.0'') = Inr (t @ [0])"
    using assms by (simp add: versiontuple_def map_int_append)
  moreover have "tuple_less t (t @ [0])" by (rule tuple_less_append) simp
  ultimately show ?thesis using tuple_less_asym by blast
qed

theorem trailing_zero_segment_is_greater_witness:
  "versiontuple ''2.9'' = Inr [2, 9] \<and> versiontuple ''2.9.0'' = Inr [2, 9, 0]
   \<and> tuple_less [2, 9] [2, 9, 0] \<and> \<not> tuple_less [2, 9, 0] [2, 9]"
proof -
  have h: "versiontuple ''2.9'' = Inr [2, 9]" by (simp add: int_eval)
  show ?thesis using h trailing_zero_segment_is_greater [OF h] by simp
qed

subsection \<open>ArtifactResolver\<close>

text \<open>
  Claim C6. Where the describe call answers with a response,
  \<^verbatim>\<open>get_training_job_s3_model_artifacts\<close> returns the string in the field
  S3ModelArtifacts of the field ModelArtifacts of that response, unchanged, after that
  one call.
\<close>

theorem s3_model_artifacts_returned_verbatim:
  assumes "boto3_client env ''sagemaker'' = Inr client"
    and "describe_training_job client job_name = Inr response"
  shows "get_training_job_s3_model_artifacts env job_name =
           ([DescribeTrainingJob job_name], Inr (S3ModelArtifacts (ModelArtifacts response)))"
  using assms by (simp add: get_training_job_s3_model_artifacts_def)

lemma example_describe:
  "describe_training_job example_client ''churn-predict-2024-02-01'' =
     Inr \<lparr>ModelArtifacts =
            \<lparr>S3ModelArtifacts = ''s3://bucket/churn-predict-2024-02-01/output/model.tar.gz''\<rparr>\<rparr>"
  by (simp add: example_client_def describe_service_def example_artifacts_def)

theorem s3_model_artifacts_returned_verbatim_witness:
  "get_training_job_s3_model_artifacts (example_env ''2.90.0'' pip_succeeded)
     ''churn-predict-2024-02-01'' =
   ([DescribeTrainingJob ''churn-predict-2024-02-01''],
    Inr ''s3://bucket/churn-predict-2024-02-01/output/model.tar.gz'')"
  using s3_model_artifacts_returned_verbatim [OF example_boto3_client example_describe]
  by simp

subsection \<open>DependencyChecker\<close>

text \<open>
  The run of \<^verbatim>\<open>check_dependencies\<close> where the installed version is older, the shell
  command yields a stream and a kernel is present; and the converse for the flag: it is
  set only on that path.
\<close>

lemma check_dependencies_install:
  assumes "versiontuple (sagemaker_version env) = Inr installed"
    and "versiontuple required_version = Inr required"
    and "tuple_less installed required"
    and "os_popen env (sys_executable env @ '' -m pip install -U sagemaker==2.90.0'')
           = Inr stream"
    and "kernel_present env"
  shows "check_dependencies env =
    (\<lparr>kernel_restart_required = True,
      events =
        [Print (''This workshop was tested with sagemaker version 2.90.0 but you are using ''
                  @ sagemaker_version env @ ''. Installing required version...''),
         Popen (sys_executable env @ '' -m pip install -U sagemaker==2.90.0''),
         Print (read stream),
         Print ''Restarting kernel after installing new dependencies...'',
         DoShutdown True,
         Print ''WARNING: Kernel restarting...please wait 30 seconds before moving to the next cell!'']\<rparr>,
     Inr ())"
  using assms by (simp add: check_dependencies_def emit_def required_version_def)

lemma check_dependencies_flag:
  assumes "kernel_restart_required (fst (check_dependencies env))"
  shows "\<exists>installed required stream.
           versiontuple (sagemaker_version env) = Inr installed
         \<and> versiontuple required_version = Inr required
         \<and> tuple_less installed required
         \<and> os_popen env (sys_executable env @ '' -m pip install -U sagemaker==2.90.0'')
             = Inr stream"
  using assms
  by (auto simp: check_dependencies_def emit_def required_version_def Let_def
           split: sum.splits if_splits)

lemma example_env_old:
  "versiontuple (sagemaker_version (example_env ''2.89.0'' stream)) = Inr [2, 89, 0]"
  "os_popen (example_env ''2.89.0'' stream)
     (sys_executable (example_env ''2.89.0'' stream) @ '' -m pip install -U sagemaker==2.90.0'')
     = Inr stream"
  "kernel_present (example_env ''2.89.0'' stream)"
  "tuple_less [2, 89, 0] [2, 90, 0]"
  by (simp_all add: example_env_def int_eval)

lemmas example_env_old_run =
  check_dependencies_install [OF example_env_old(1) versiontuple_required
    example_env_old(4) example_env_old(2) example_env_old(3)]

text \<open>
  The runs of \<^verbatim>\<open>check_dependencies\<close> with an older installed version that end in an
  error: without a kernel the installer has run and the flag is set, but no signal is
  issued; where the call to the shell raises, the flag is not even set.
\<close>

lemma check_dependencies_no_kernel:
  assumes "versiontuple (sagemaker_version env) = Inr installed"
    and "versiontuple required_version = Inr required"
    and "tuple_less installed required"
    and "os_popen env (sys_executable env @ '' -m pip install -U sagemaker==2.90.0'')
           = Inr stream"
    and "\<not> kernel_present env"
  shows "check_dependencies env =
    (\<lparr>kernel_restart_required = True,
      events =
        [Print (''This workshop was tested with sagemaker version 2.90.0 but you are using ''
                  @ sagemaker_version env @ ''. Installing required version...''),
         Popen (sys_executable env @ '' -m pip install -U sagemaker==2.90.0''),
         Print (read stream),
         Print ''Restarting kernel after installing new dependencies...'']\<rparr>,
     Inl (AttributeError ''kernel''))"
  using assms by (simp add: check_dependencies_def emit_def required_version_def)

lemma check_dependencies_no_shell:
  assumes "versiontuple (sagemaker_version env) = Inr installed"
    and "versiontuple required_version = Inr required"
    and "tuple_less installed required"
    and "os_popen env (sys_executable env @ '' -m pip install -U sagemaker==2.90.0'')
           = Inl e"
  shows "check_dependencies env =
    (\<lparr>kernel_restart_required = False,
      events =
        [Print (''This workshop was tested with sagemaker version 2.90.0 but you are using ''
                  @ sagemaker_version env @ ''. Installing required version...''),
         Popen (sys_executable env @ '' -m pip install -U sagemaker==2.90.0'')]\<rparr>,
     Inl e)"
  using assms by (simp add: check_dependencies_def emit_def required_version_def)

lemma example_env_no_kernel:
  "versiontuple (sagemaker_version (no_kernel (example_env ''2.89.0'' stream)))
     = Inr [2, 89, 0]"
  "os_popen (no_kernel (example_env ''2.89.0'' stream))
     (sys_executable (no_kernel (example_env ''2.89.0'' stream))
        @ '' -m pip install -U sagemaker==2.90.0'')
     = Inr stream"
  "\<not> kernel_present (no_kernel (example_env ''2.89.0'' stream))"
  by (simp_all add: example_env_def no_kernel_def int_eval)

lemma example_env_no_shell:
  "versiontuple (sagemaker_version (no_shell (example_env ''2.89.0'' stream)))
     = Inr [2, 89, 0]"
  "os_popen (no_shell (example_env ''2.89.0'' stream))
     (sys_executable (no_shell (example_env ''2.89.0'' stream))
        @ '' -m pip install -U sagemaker==2.90.0'')
     = Inl (OSError ''Cannot allocate memory'')"
  by (simp_all add: example_env_def no_shell_def int_eval)

lemmas example_env_no_kernel_run =
  check_dependencies_no_kernel [OF example_env_no_kernel(1) versiontuple_required
    example_env_old(4) example_env_no_kernel(2) example_env_no_kernel(3)]

lemmas example_env_no_shell_run =
  check_dependencies_no_shell [OF example_env_no_shell(1) versiontuple_required
    example_env_old(4) example_env_no_shell(2)]

text \<open>
  Claim C4, as stated: for every installed version strictly less than the required
  version the installer is invoked once and then the kernel restart is signalled once.
  With the installed version "2.89.0", which is less than "2.90.0", and no kernel, the
  installer is invoked and the run ends in an AttributeError without any signal; where
  the call to the shell raises, the run ends in that error without any signal.
\<close>

theorem older_version_without_kernel_counterexample:
  "versiontuple (sagemaker_version (no_kernel (example_env ''2.89.0'' pip_succeeded)))
     = Inr [2, 89, 0]
   \<and> versiontuple required_version = Inr [2, 90, 0]
   \<and> tuple_less [2, 89, 0] [2, 90, 0]
   \<and> filter is_Popen
        (events (fst (check_dependencies (no_kernel (example_env ''2.89.0'' pip_succeeded)))))
      = [Popen ''/opt/conda/bin/python -m pip install -U sagemaker==2.90.0'']
   \<and> filter is_DoShutdown
        (events (fst (check_dependencies (no_kernel (example_env ''2.89.0'' pip_succeeded)))))
      = []
   \<and> snd (check_dependencies (no_kernel (example_env ''2.89.0'' pip_succeeded)))
      = Inl (AttributeError ''kernel'')
   \<and> filter is_DoShutdown
        (events (fst (check_dependencies (no_shell (example_env ''2.89.0'' pip_succeeded)))))
      = []
   \<and> snd (check_dependencies (no_shell (example_env ''2.89.0'' pip_succeeded)))
      = Inl (OSError ''Cannot allocate memory'')"
  by (simp add: example_env_no_kernel_run example_env_no_shell_run versiontuple_required
        example_env_no_kernel(1))
     (simp add: example_env_def no_kernel_def)

text \<open>
  Claim C4, amended. Where the installed version is strictly less than the required
  version "2.90.0", the call to the shell yields a stream and a kernel is present,
  \<^verbatim>\<open>check_dependencies\<close> invokes the installer exactly once, with the command
  "<interpreter> -m pip install -U sagemaker==2.90.0", then signals the kernel restart
  exactly once, and returns.
\<close>

theorem older_version_installs_once_then_restarts_once:
  assumes "versiontuple (sagemaker_version env) = Inr installed"
    and "versiontuple required_version = Inr required"
    and "tuple_less installed required"
    and "os_popen env (sys_executable env @ '' -m pip install -U sagemaker==2.90.0'')
           = Inr stream"
    and "kernel_present env"
  shows "filter is_Popen (events (fst (check_dependencies env))) =
           [Popen (sys_executable env @ '' -m pip install -U sagemaker=='' @ required_version)]
       \<and> required_version = ''2.90.0''
       \<and> filter is_DoShutdown (events (fst (check_dependencies env))) = [DoShutdown True]
       \<and> precedes (Popen (sys_executable env @ '' -m pip install -U sagemaker==2.90.0''))
           (DoShutdown True) (events (fst (check_dependencies env)))
       \<and> snd (check_dependencies env) = Inr ()"
  using check_dependencies_install [OF assms] by (simp add: required_version_def)

theorem older_version_installs_once_then_restarts_once_witness:
  "filter is_Popen (events (fst (check_dependencies (example_env ''2.89.0'' pip_succeeded)))) =
     [Popen ''/opt/conda/bin/python -m pip install -U sagemaker==2.90.0'']
   \<and> filter is_DoShutdown
       (events (fst (check_dependencies (example_env ''2.89.0'' pip_succeeded)))) =
     [DoShutdown True]"
  using older_version_installs_once_then_restarts_once
    [OF example_env_old(1) versiontuple_required example_env_old(4) example_env_old(2)
        example_env_old(3), of pip_succeeded]
  by (simp add: example_env_def required_version_def)

text \<open>
  Claim C5. Where the installed version is equal to or greater than the required
  version "2.90.0", \<^verbatim>\<open>check_dependencies\<close> returns having done nothing: no print, no
  installer, no restart signal, and the flag stays unset.
\<close>

theorem current_version_installs_nothing:
  assumes "versiontuple (sagemaker_version env) = Inr installed"
    and "versiontuple required_version = Inr required"
    and "installed = required \<or> tuple_greater installed required"
  shows "check_dependencies env =
           (\<lparr>kernel_restart_required = False, events = []\<rparr>, Inr ())"
proof -
  have "\<not> tuple_less installed required"
    using assms(3) tuple_less_irrefl tuple_less_asym by (auto simp: tuple_greater_less)
  then show ?thesis using assms(1,2) by (simp add: check_dependencies_def)
qed

theorem current_version_installs_nothing_witness:
  "check_dependencies (example_env ''2.104.0'' pip_succeeded) =
     (\<lparr>kernel_restart_required = False, events = []\<rparr>, Inr ())"
proof -
  have v: "versiontuple (sagemaker_version (example_env ''2.104.0'' pip_succeeded))
             = Inr [2, 104, 0]"
    by (simp add: example_env_def int_eval)
  have g: "[2, 104, 0] = [2, 90, 0] \<or> tuple_greater [2, 104, 0] [2, 90, 0]" by simp
  show ?thesis
    using current_version_installs_nothing [OF v versiontuple_required g] by simp
qed

text \<open>
  Claim C7. Where a segment of the installed version string cannot be read as an
  integer, \<^verbatim>\<open>versiontuple\<close> fails with the ValueError of such a segment, and
  \<^verbatim>\<open>check_dependencies\<close> ends with that same error, having done nothing.
\<close>

theorem non_integer_segment_fails_uncaught:
  assumes "seg \<in> set (split v (CHR ''.''))" and "parse_int seg = None"
    and "sagemaker_version env = v"
  shows "\<exists>bad. bad \<in> set (split v (CHR ''.'')) \<and> parse_int bad = None
           \<and> versiontuple v = Inl (ValueError bad)
           \<and> check_dependencies env =
               (\<lparr>kernel_restart_required = False, events = []\<rparr>, Inl (ValueError bad))"
proof -
  obtain bad where b: "bad \<in> set (split v (CHR ''.''))" "parse_int bad = None"
    "map_int (split v (CHR ''.'')) = Inl (ValueError bad)"
    using map_int_fail [OF assms(1,2)] by blast
  then have "check_dependencies env =
               (\<lparr>kernel_restart_required = False, events = []\<rparr>, Inl (ValueError bad))"
    using assms(3) by (simp add: check_dependencies_def versiontuple_def)
  with b show ?thesis by (auto simp: versiontuple_def)
qed

theorem non_integer_segment_fails_uncaught_witness:
  "''0rc1'' \<in> set (split ''2.90.0rc1'' (CHR ''.'')) \<and> parse_int ''0rc1'' = None
   \<and> versiontuple ''2.90.0rc1'' = Inl (ValueError ''0rc1'')
   \<and> check_dependencies (example_env ''2.90.0rc1'' pip_succeeded) =
       (\<lparr>kernel_restart_required = False, events = []\<rparr>, Inl (ValueError ''0rc1''))"
proof -
  have m: "''0rc1'' \<in> set (split ''2.90.0rc1'' (CHR ''.''))" by simp
  have p: "parse_int ''0rc1'' = None" by (simp add: int_eval)
  have v: "sagemaker_version (example_env ''2.90.0rc1'' pip_succeeded) = ''2.90.0rc1''"
    by (simp add: example_env_def)
  have t: "versiontuple ''2.90.0rc1'' = Inl (ValueError ''0rc1'')" by (simp add: int_eval)
  show ?thesis
    using non_integer_segment_fails_uncaught [OF m p v] m p t by auto
qed

text \<open>
  Claim C9, as stated: whenever the restart was marked required, a warning is printed and
  then the shutdown-with-restart signal is issued. In the run below the restart is marked
  required, and the message the code calls a warning is not printed before the signal:
  it is printed after it.
\<close>

theorem warning_before_shutdown_counterexample:
  "kernel_restart_required (fst (check_dependencies (example_env ''2.89.0'' pip_succeeded)))
   \<and> \<not> precedes
         (Print ''WARNING: Kernel restarting...please wait 30 seconds before moving to the next cell!'')
         (DoShutdown True)
         (events (fst (check_dependencies (example_env ''2.89.0'' pip_succeeded))))
   \<and> precedes (DoShutdown True)
         (Print ''WARNING: Kernel restarting...please wait 30 seconds before moving to the next cell!'')
         (events (fst (check_dependencies (example_env ''2.89.0'' pip_succeeded))))"
  by (simp add: example_env_old_run pip_succeeded_def)

text \<open>
  Claim C9, amended. Whenever the restart was marked required and a kernel is present,
  the last three actions of \<^verbatim>\<open>check_dependencies\<close> are, in this order: it prints
  "Restarting kernel after installing new dependencies...", it issues the
  shutdown-with-restart signal, and it prints the warning "WARNING: Kernel
  restarting...please wait 30 seconds before moving to the next cell!". No signal is
  issued before these.
\<close>

theorem restart_notice_then_shutdown_then_warning:
  assumes "kernel_restart_required (fst (check_dependencies env))" and "kernel_present env"
  shows "\<exists>before. events (fst (check_dependencies env)) =
            before @ [Print ''Restarting kernel after installing new dependencies...'',
                      DoShutdown True,
                      Print ''WARNING: Kernel restarting...please wait 30 seconds before moving to the next cell!'']
          \<and> filter is_DoShutdown before = []"
proof -
  obtain installed required stream
    where "versiontuple (sagemaker_version env) = Inr installed"
      "versiontuple required_version = Inr required" "tuple_less installed required"
      "os_popen env (sys_executable env @ '' -m pip install -U sagemaker==2.90.0'')
         = Inr stream"
    using check_dependencies_flag [OF assms(1)] by blast
  from check_dependencies_install [OF this assms(2)] show ?thesis by simp
qed

theorem restart_notice_then_shutdown_then_warning_witness:
  "kernel_restart_required (fst (check_dependencies (example_env ''2.89.0'' pip_succeeded)))
   \<and> kernel_present (example_env ''2.89.0'' pip_succeeded)
   \<and> (\<exists>before. events (fst (check_dependencies (example_env ''2.89.0'' pip_succeeded))) =
            before @ [Print ''Restarting kernel after installing new dependencies...'',
                      DoShutdown True,
                      Print ''WARNING: Kernel restarting...please wait 30 seconds before moving to the next cell!'']
          \<and> filter is_DoShutdown before = [])"
proof -
  have f: "kernel_restart_required
             (fst (check_dependencies (example_env ''2.89.0'' pip_succeeded)))"
    by (simp add: example_env_old_run)
  show ?thesis
    using restart_notice_then_shutdown_then_warning [OF f example_env_old(3)] f
      example_env_old(3)
    by blast
qed

text \<open>
  Claim C10, as stated: in every execution with an older installed version the restart is
  marked required and signalled, and the combined output of the installer is read and
  printed. With the installed version "2.89.0" and no kernel the restart is marked and
  never signalled; where the call to the shell raises it is not even marked; and where
  the installer fails with a message on its standard error, no printed text contains
  that message: only the standard output comes through the pipe.
\<close>

theorem restart_not_signalled_counterexample:
  "versiontuple (sagemaker_version (no_kernel (example_env ''2.89.0'' pip_failed)))
     = Inr [2, 89, 0]
   \<and> versiontuple required_version = Inr [2, 90, 0]
   \<and> tuple_less [2, 89, 0] [2, 90, 0]
   \<and> kernel_restart_required
        (fst (check_dependencies (no_kernel (example_env ''2.89.0'' pip_failed))))
   \<and> filter is_DoShutdown
        (events (fst (check_dependencies (no_kernel (example_env ''2.89.0'' pip_failed)))))
      = []
   \<and> \<not> kernel_restart_required
          (fst (check_dependencies (no_shell (example_env ''2.89.0'' pip_failed))))
   \<and> stderr pip_failed = ''ERROR: No matching distribution found''
   \<and> printed (events (fst (check_dependencies (example_env ''2.89.0'' pip_failed)))) =
       [''This workshop was tested with sagemaker version 2.90.0 but you are using 2.89.0. Installing required version...'',
        ''Collecting sagemaker==2.90.0'',
        ''Restarting kernel after installing new dependencies...'',
        ''WARNING: Kernel restarting...please wait 30 seconds before moving to the next cell!'']
   \<and> stderr pip_failed
        \<notin> set (printed (events (fst (check_dependencies (example_env ''2.89.0'' pip_failed)))))"
proof -
  have run: "printed (events (fst (check_dependencies (example_env ''2.89.0'' pip_failed)))) =
       [''This workshop was tested with sagemaker version 2.90.0 but you are using 2.89.0. Installing required version...'',
        ''Collecting sagemaker==2.90.0'',
        ''Restarting kernel after installing new dependencies...'',
        ''WARNING: Kernel restarting...please wait 30 seconds before moving to the next cell!'']"
    using example_env_old_run [of pip_failed] by (simp add: example_env_def pip_failed_def)
  have err: "stderr pip_failed = ''ERROR: No matching distribution found''"
    by (simp add: pip_failed_def)
  have absent: "stderr pip_failed
        \<notin> set (printed (events (fst (check_dependencies (example_env ''2.89.0'' pip_failed)))))"
    unfolding run err by simp
  have marked: "kernel_restart_required
        (fst (check_dependencies (no_kernel (example_env ''2.89.0'' pip_failed))))"
    and silent: "filter is_DoShutdown
        (events (fst (check_dependencies (no_kernel (example_env ''2.89.0'' pip_failed)))))
      = []"
    by (simp_all add: example_env_no_kernel_run)
  have unmarked: "\<not> kernel_restart_required
          (fst (check_dependencies (no_shell (example_env ''2.89.0'' pip_failed))))"
    by (simp add: example_env_no_shell_run)
  show ?thesis
    using run err absent marked silent unmarked versiontuple_required
      example_env_no_kernel(1) [of pip_failed] example_env_old(4)
    by blast
qed

text \<open>
  Claim C10, amended. Where the installed version is older, the call to the shell yields
  a stream and a kernel is present, the restart is marked required and signalled whether
  the installer succeeded or not: the run is the same for every exit status, and for
  every text on the standard error, of the command. Of the installer only the text read
  from the stream, its standard output, is printed.
\<close>

theorem restart_ignores_installer_exit_status:
  assumes "versiontuple (sagemaker_version env) = Inr installed"
    and "versiontuple required_version = Inr required"
    and "tuple_less installed required"
    and "os_popen env (sys_executable env @ '' -m pip install -U sagemaker==2.90.0'')
           = Inr stream"
    and "kernel_present env"
  shows "kernel_restart_required (fst (check_dependencies env))
       \<and> DoShutdown True \<in> set (events (fst (check_dependencies env)))
       \<and> Print (read stream) \<in> set (events (fst (check_dependencies env)))
       \<and> printed (events (fst (check_dependencies env))) =
           [''This workshop was tested with sagemaker version 2.90.0 but you are using ''
              @ sagemaker_version env @ ''. Installing required version...'',
            read stream,
            ''Restarting kernel after installing new dependencies...'',
            ''WARNING: Kernel restarting...please wait 30 seconds before moving to the next cell!'']
       \<and> check_dependencies
           (env\<lparr>os_popen :=
                  \<lambda>command. Inr (stream\<lparr>stderr := err, exit_status := status\<rparr>)\<rparr>)
           = check_dependencies env"
proof -
  let ?stream = "stream\<lparr>stderr := err, exit_status := status\<rparr>"
  let ?env = "env\<lparr>os_popen := \<lambda>command. Inr ?stream\<rparr>"
  have "check_dependencies ?env = check_dependencies env"
    using check_dependencies_install [OF assms]
      check_dependencies_install [of ?env installed required ?stream]
      assms
    by simp
  then show ?thesis using check_dependencies_install [OF assms] by simp
qed

theorem restart_ignores_installer_exit_status_witness:
  "kernel_restart_required (fst (check_dependencies (example_env ''2.89.0'' pip_failed)))
   \<and> DoShutdown True \<in> set (events (fst (check_dependencies (example_env ''2.89.0'' pip_failed))))
   \<and> exit_status pip_failed = 1
   \<and> printed (events (fst (check_dependencies (example_env ''2.89.0'' pip_failed)))) =
       [''This workshop was tested with sagemaker version 2.90.0 but you are using 2.89.0. Installing required version...'',
        ''Collecting sagemaker==2.90.0'',
        ''Restarting kernel after installing new dependencies...'',
        ''WARNING: Kernel restarting...please wait 30 seconds before moving to the next cell!'']
   \<and> check_dependencies
       (example_env ''2.89.0'' pip_failed
          \<lparr>os_popen := \<lambda>command. Inr (pip_failed\<lparr>stderr := [], exit_status := 0\<rparr>)\<rparr>)
       = check_dependencies (example_env ''2.89.0'' pip_failed)"
  using restart_ignores_installer_exit_status
    [OF example_env_old(1) versiontuple_required example_env_old(4) example_env_old(2)
        example_env_old(3), where stream = pip_failed and err = "[]" and status = 0]
  by (simp add: pip_failed_def example_env_def)

end
